theory Spec2Isabelle
  imports Main
begin

text \<open>
  A verification development for the lesson-event scheduling and notification-dispatch
  engine of the attendance system: the recurrence generator, the event materializer,
  the dispatcher's send routine, the finish step of the attendance handler, the
  derived-record calculators and the cleanup sweeps. Each definition embeds one function
  of the source and keeps its name; the relational store is a record of row lists, one
  list per table, in table order.
\<close>

section \<open>Time conversion layer (app/utils/timezone.py)\<close>

text \<open>
  Python's \<open>datetime\<close> values are modelled by their wall-clock reading, counted in
  microseconds from the start of proleptic Gregorian ordinal day 0, so that
  \<open>date_of\<close> yields \<open>date.toordinal()\<close> and \<open>time_of\<close> the microseconds since
  midnight. Every place of the source fixes the \<open>tzinfo\<close> of a value statically
  (\<open>KYIV\<close> or \<open>timezone.utc\<close>), so an aware value is its wall-clock reading
  together with the zone the source gives it. Python admits the years 1..9999 only;
  arithmetic that leaves this range raises \<open>OverflowError\<close>.
\<close>

datatype error = ValueError | OverflowError | AttributeError | DataError | MultipleResultsFound

type_synonym datetime = int
type_synonym date = int

definition US_PER_MINUTE :: int where "US_PER_MINUTE = 60000000"
definition US_PER_HOUR :: int where "US_PER_HOUR = 3600000000"
definition US_PER_DAY :: int where "US_PER_DAY = 86400000000"

definition MAXORDINAL :: int where "MAXORDINAL = 3652059"

definition date_of :: "datetime \<Rightarrow> date" where
  "date_of dt = dt div US_PER_DAY"

definition time_of :: "datetime \<Rightarrow> int" where
  "time_of dt = dt mod US_PER_DAY"

definition weekday :: "date \<Rightarrow> int" where
  \<comment> \<open>\<open>date.weekday()\<close>: 0 = Monday .. 6 = Sunday; ordinal 1 is a Monday.\<close>
  "weekday d = (d + 6) mod 7"

definition in_range :: "datetime \<Rightarrow> bool" where
  "in_range dt = (US_PER_DAY \<le> dt \<and> dt < (MAXORDINAL + 1) * US_PER_DAY)"

definition datetime_add :: "datetime \<Rightarrow> int \<Rightarrow> error + datetime" where
  \<comment> \<open>\<open>dt + timedelta(microseconds=delta)\<close>; a \<open>timedelta\<close> too large to build
      could only give a result out of range, and raises the same error.\<close>
  "datetime_add dt delta =
     (if in_range (dt + delta) then Inr (dt + delta) else Inl OverflowError)"

text \<open>
  \<open>KYIV = ZoneInfo("Europe/Kyiv")\<close> comes from the time-zone database, which is not
  part of the repository. The zone is a parameter of the model: its UTC offset (in
  microseconds) as a function of a local wall-clock reading (what \<open>utcoffset\<close> answers
  for an aware local value with \<open>fold = 0\<close>) and as a function of a UTC instant (what
  \<open>fromutc\<close> applies).
\<close>

record tzinfo =
  utcoffset :: "datetime \<Rightarrow> int"
  utcoffset_at :: "datetime \<Rightarrow> int"

definition astimezone_utc :: "tzinfo \<Rightarrow> datetime \<Rightarrow> error + datetime" where
  \<comment> \<open>\<open>dt_local.astimezone(timezone.utc)\<close> for \<open>dt_local\<close> aware in the zone.\<close>
  "astimezone_utc tz dt_local = datetime_add dt_local (- utcoffset tz dt_local)"

definition astimezone_kyiv :: "tzinfo \<Rightarrow> datetime \<Rightarrow> error + datetime" where
  \<comment> \<open>\<open>dt_utc.astimezone(KYIV)\<close> for \<open>dt_utc\<close> aware in UTC.\<close>
  "astimezone_kyiv tz dt_utc = datetime_add dt_utc (utcoffset_at tz dt_utc)"

definition replace_hm :: "datetime \<Rightarrow> int \<Rightarrow> int \<Rightarrow> error + datetime" where
  \<comment> \<open>\<open>dt.replace(hour=h, minute=m, second=0, microsecond=0)\<close>\<close>
  "replace_hm dt h m =
     (if 0 \<le> h \<and> h < 24 \<and> 0 \<le> m \<and> m < 60
      then Inr (date_of dt * US_PER_DAY + h * US_PER_HOUR + m * US_PER_MINUTE)
      else Inl ValueError)"

record time_of_day =
  hour :: int
  minute :: int
  second :: int
  microsecond :: int

definition combine :: "date \<Rightarrow> time_of_day \<Rightarrow> datetime" where
  \<comment> \<open>\<open>datetime.combine(date_obj, time_obj)\<close>\<close>
  "combine d t = d * US_PER_DAY + hour t * US_PER_HOUR + minute t * US_PER_MINUTE
                 + second t * 1000000 + microsecond t"

definition combine_date_time_to_utc :: "tzinfo \<Rightarrow> date \<Rightarrow> time_of_day \<Rightarrow> error + datetime" where
  "combine_date_time_to_utc tz date_obj time_obj = astimezone_utc tz (combine date_obj time_obj)"

section \<open>Recurrence generator (next_n_weekly)\<close>

fun collect :: "('a \<Rightarrow> error + 'b) \<Rightarrow> 'a list \<Rightarrow> error + 'b list" where
  \<comment> \<open>a list comprehension whose element expression may raise\<close>
  "collect f [] = Inr []"
| "collect f (x # xs) =
     (case f x of Inl e \<Rightarrow> Inl e
      | Inr y \<Rightarrow> (case collect f xs of Inl e \<Rightarrow> Inl e | Inr ys \<Rightarrow> Inr (y # ys)))"

definition py_range :: "int \<Rightarrow> int list" where
  \<comment> \<open>Python's \<open>range(n)\<close>\<close>
  "py_range n = map int [0..<nat n]"

definition next_n_weekly ::
  "tzinfo \<Rightarrow> datetime \<Rightarrow> int \<Rightarrow> int \<Rightarrow> int \<Rightarrow> int \<Rightarrow> bool \<Rightarrow> error + datetime list" where
  \<comment> \<open>\<open>now_local\<close> is the reading of \<open>datetime.now(KYIV)\<close>.\<close>
  "next_n_weekly tz now_local local_weekday local_hour local_minute n include_today =
     (case replace_hm now_local local_hour local_minute of
        Inl e \<Rightarrow> Inl e
      | Inr first_local \<Rightarrow>
          let days_ahead = (local_weekday - weekday (date_of first_local)) mod 7;
              days_ahead = (if days_ahead = 0
                            then (if include_today \<and> first_local > now_local then 0 else 7)
                            else days_ahead)
          in (case datetime_add first_local (days_ahead * US_PER_DAY) of
                Inl e \<Rightarrow> Inl e
              | Inr first_local \<Rightarrow>
                  (case astimezone_utc tz first_local of
                     Inl e \<Rightarrow> Inl e
                   | Inr first_utc \<Rightarrow>
                       collect (\<lambda>i. datetime_add first_utc (7 * i * US_PER_DAY)) (py_range n))))"

text \<open>
  A concrete zone for evaluation: the offsets of Europe/Kyiv around 2026, UTC+2 in
  winter and UTC+3 from 29 March 2026 01:00 UTC to 25 October 2026 01:00 UTC. A local
  reading inside the skipped hour of 29 March gets the offset valid before the change,
  one inside the repeated hour of 25 October the offset of its first occurrence.
\<close>

definition dt :: "int \<Rightarrow> int \<Rightarrow> int \<Rightarrow> datetime" where
  \<comment> \<open>the reading at ordinal day \<open>d\<close>, \<open>h:m\<close> o'clock\<close>
  "dt d h m = d * US_PER_DAY + h * US_PER_HOUR + m * US_PER_MINUTE"

definition kyiv_2026 :: tzinfo where
  "kyiv_2026 = \<lparr>
     utcoffset = (\<lambda>w. if dt 739704 4 0 \<le> w \<and> w < dt 739914 4 0
                       then 3 * US_PER_HOUR else 2 * US_PER_HOUR),
     utcoffset_at = (\<lambda>u. if dt 739704 1 0 \<le> u \<and> u < dt 739914 1 0
                          then 3 * US_PER_HOUR else 2 * US_PER_HOUR) \<rparr>"

section \<open>Strings built by the source\<close>

fun str_nat :: "nat \<Rightarrow> string" where
  "str_nat n = (if n < 10 then [char_of (48 + n)]
                else str_nat (n div 10) @ [char_of (48 + n mod 10)])"

declare str_nat.simps [simp del]

definition str_int :: "int \<Rightarrow> string" where
  \<comment> \<open>\<open>str(i)\<close>, as an f-string formats an integer\<close>
  "str_int i = (if i < 0 then CHR ''-'' # str_nat (nat (- i)) else str_nat (nat i))"

definition two_digits :: "int \<Rightarrow> string" where
  "two_digits i = (if i < 10 then CHR ''0'' # str_int i else str_int i)"

definition ymd :: "date \<Rightarrow> int \<times> int \<times> int" where
  \<comment> \<open>year, month and day of a proleptic Gregorian ordinal (\<open>date.fromordinal\<close>)\<close>
  "ymd ordinal =
     (let z = ordinal + 305;
          era = z div 146097;
          doe = z - era * 146097;
          yoe = (doe - doe div 1460 + doe div 36524 - doe div 146096) div 365;
          doy = doe - (365 * yoe + yoe div 4 - yoe div 100);
          mp = (5 * doy + 2) div 153;
          d = doy - (153 * mp + 2) div 5 + 1;
          m = (if mp < 10 then mp + 3 else mp - 9);
          y = yoe + era * 400 + (if m \<le> 2 then 1 else 0)
      in (y, m, d))"

definition strftime_Ymd :: "date \<Rightarrow> string" where
  \<comment> \<open>\<open>d.strftime('%Y%m%d')\<close>\<close>
  "strftime_Ymd d = (case ymd d of (y, m, dd) \<Rightarrow> str_int y @ two_digits m @ two_digits dd)"

fun like :: "string \<Rightarrow> string \<Rightarrow> bool" where
  \<comment> \<open>SQL \<open>s LIKE pattern\<close>, pattern first: \<open>%\<close> stands for any run of characters,
      \<open>_\<close> for any single one. The patterns built here hold no escape character.\<close>
  "like [] s = (s = [])"
| "like (p # ps) s =
     (if p = CHR ''%''
      then like ps s \<or> (case s of [] \<Rightarrow> False | c # cs \<Rightarrow> like (p # ps) cs)
      else (case s of [] \<Rightarrow> False | c # cs \<Rightarrow> (p = CHR ''_'' \<or> p = c) \<and> like ps cs))"

section \<open>Data model (app/models)\<close>

text \<open>
  One record per table, with the columns the embedded functions read or write.
  Column names are those of the source, prefixed where two tables share a name.
\<close>

datatype LessonEventStatus = PLANNED | SENT | COMPLETED | SKIPPED | CANCELLED

record lesson_event =
  le_id :: int
  le_schedule_id :: int
  le_date :: date
  le_club_id :: "int option"
  le_teacher_id :: int
  le_status :: LessonEventStatus
  start_at :: datetime
  notify_at :: datetime
  sent_at :: "datetime option"
  completed_at :: "datetime option"
  teacher_chat_id :: "int option"
  send_attempts :: int
  last_error :: "string option"
  idempotency_key :: "string option"

record teacher =
  t_id :: int
  tg_chat_id :: "int option"

record schedule =
  s_id :: int
  s_club_id :: "int option"
  s_weekday :: int
  start_time :: time_of_day
  s_teacher_id :: int
  active :: bool

record bot_schedule =
  bs_id :: int
  bs_schedule_id :: int
  enabled :: bool
  offset_minutes :: int
  custom_time :: "time_of_day option"

datatype AttendanceStatus = PRESENT | ABSENT

record attendance =
  a_id :: int
  a_lesson_event_id :: int
  a_student_id :: int
  a_status :: AttendanceStatus
  marked_by :: "int option"
  marked_at :: datetime

record student =
  st_id :: int

record schedule_enrollment =
  se_id :: int
  se_student_id :: int
  se_schedule_id :: int

record conducted_lesson =
  cl_id :: int
  cl_teacher_id :: int
  cl_club_id :: "int option"
  cl_lesson_event_id :: int
  lesson_date :: datetime
  total_students :: int
  present_students :: int
  absent_students :: int
  is_salary_calculated :: bool

datatype PayRateType = PER_LESSON | PER_PRESENT

record pay_rate =
  pr_id :: int
  pr_teacher_id :: int
  rate_type :: PayRateType
  pr_amount_decimal :: int
  active_from :: date
  active_to :: "date option"

datatype PayrollBasis = AUTO | MANUAL

record payroll =
  p_id :: int
  p_teacher_id :: int
  p_lesson_event_id :: int
  basis :: PayrollBasis
  p_amount_decimal :: int

text \<open>
  The store: every table as the list of its rows, and for every table the embedded
  functions insert into, the next value of its primary-key sequence. Amounts
  (\<open>Numeric(10, 2)\<close>) are counted in hundredths.
\<close>

record db =
  teachers :: "teacher list"
  schedules :: "schedule list"
  bot_schedules :: "bot_schedule list"
  lesson_events :: "lesson_event list"
  lesson_events_seq :: int
  students :: "student list"
  schedule_enrollments :: "schedule_enrollment list"
  attendances :: "attendance list"
  attendances_seq :: int
  conducted_lessons :: "conducted_lesson list"
  conducted_lessons_seq :: int
  pay_rates :: "pay_rate list"
  payrolls :: "payroll list"
  payrolls_seq :: int

section \<open>Event materializer (app/services/lesson_event_manager.py)\<close>

definition truthy_chat_id :: "int option \<Rightarrow> int option" where
  \<comment> \<open>\<open>x if x else None\<close> on an optional integer\<close>
  "truthy_chat_id c = (case c of None \<Rightarrow> None | Some v \<Rightarrow> if v = 0 then None else Some v)"

definition key_matches :: "int \<Rightarrow> lesson_event \<Rightarrow> bool" where
  \<comment> \<open>\<open>LessonEvent.idempotency_key.like(f'bot_schedule_{bot_schedule_id}_%')\<close>;
      a NULL key matches nothing\<close>
  "key_matches bot_schedule_id e =
     (case idempotency_key e of
        None \<Rightarrow> False
      | Some k \<Rightarrow> like (''bot_schedule_'' @ str_int bot_schedule_id @ ''_%'') k)"

definition occurrence_row :: "int \<Rightarrow> schedule \<Rightarrow> date \<Rightarrow> lesson_event \<Rightarrow> bool" where
  \<comment> \<open>the \<open>where\<close> clause of the lookup of an existing event\<close>
  "occurrence_row bot_schedule_id schedule target_date e =
     (le_schedule_id e = s_id schedule \<and> le_date e = target_date
      \<and> key_matches bot_schedule_id e)"

definition materialize_one ::
  "tzinfo \<Rightarrow> bot_schedule \<Rightarrow> schedule \<Rightarrow> datetime \<Rightarrow> db \<Rightarrow> error + db \<times> nat" where
  \<comment> \<open>the body of the loop \<open>for start_at_utc in occurrences\<close>; the second component is
      what it adds to \<open>events_created\<close>. The query takes the first matching row in
      table order (\<open>limit(1)\<close>), and the session flushes a pending insert before the
      next query.\<close>
  "materialize_one tz bot_schedule schedule start_at_utc d =
     (case astimezone_kyiv tz start_at_utc of
        Inl e \<Rightarrow> Inl e
      | Inr start_local \<Rightarrow>
     (let target_date = date_of start_local in
      case datetime_add start_at_utc (- (offset_minutes bot_schedule * US_PER_MINUTE)) of
        Inl e \<Rightarrow> Inl e
      | Inr notify_at_utc \<Rightarrow>
     (case find (occurrence_row (bs_id bot_schedule) schedule target_date) (lesson_events d) of
        Some existing_event \<Rightarrow>
          (case find (\<lambda>t. t_id t = s_teacher_id schedule) (teachers d) of
             None \<Rightarrow> Inl AttributeError
           | Some teacher \<Rightarrow>
               Inr (d\<lparr>lesson_events :=
                      map (\<lambda>e. if le_id e = le_id existing_event
                                then e\<lparr>start_at := start_at_utc,
                                       notify_at := notify_at_utc,
                                       teacher_chat_id := truthy_chat_id (tg_chat_id teacher),
                                       le_status := PLANNED,
                                       sent_at := None,
                                       completed_at := None,
                                       send_attempts := 0,
                                       last_error := None\<rparr>
                                else e) (lesson_events d)\<rparr>, 0))
      | None \<Rightarrow>
          (case find (\<lambda>t. t_id t = s_teacher_id schedule) (teachers d) of
             None \<Rightarrow> Inl AttributeError
           | Some teacher \<Rightarrow>
               Inr (d\<lparr>lesson_events := lesson_events d @
                      [\<lparr>le_id = lesson_events_seq d,
                        le_schedule_id = s_id schedule,
                        le_date = target_date,
                        le_club_id = s_club_id schedule,
                        le_teacher_id = s_teacher_id schedule,
                        le_status = PLANNED,
                        start_at = start_at_utc,
                        notify_at = notify_at_utc,
                        sent_at = None,
                        completed_at = None,
                        teacher_chat_id = truthy_chat_id (tg_chat_id teacher),
                        send_attempts = 0,
                        last_error = None,
                        idempotency_key = Some (''bot_schedule_'' @ str_int (bs_id bot_schedule)
                                                @ ''_'' @ strftime_Ymd target_date)\<rparr>],
                    lesson_events_seq := lesson_events_seq d + 1\<rparr>, 1)))))"

fun materialize_loop ::
  "tzinfo \<Rightarrow> bot_schedule \<Rightarrow> schedule \<Rightarrow> datetime list \<Rightarrow> db \<times> nat \<Rightarrow> error + db \<times> nat" where
  "materialize_loop tz bot_schedule schedule [] (d, events_created) = Inr (d, events_created)"
| "materialize_loop tz bot_schedule schedule (start_at_utc # occurrences) (d, events_created) =
     (case materialize_one tz bot_schedule schedule start_at_utc d of
        Inl e \<Rightarrow> Inl e
      | Inr (d', k) \<Rightarrow>
          materialize_loop tz bot_schedule schedule occurrences (d', events_created + k))"

text \<open>
  \<open>ensure_bot_schedule_has_events\<close> answers with the state its session sees on return,
  whether it committed (it commits only after creating a row), and its result.
\<close>

definition ensure_bot_schedule_has_events ::
  "tzinfo \<Rightarrow> datetime \<Rightarrow> db \<Rightarrow> int \<Rightarrow> error + db \<times> bool \<times> bool" where
  "ensure_bot_schedule_has_events tz now_local d bot_schedule_id =
     (case find (\<lambda>b. bs_id b = bot_schedule_id) (bot_schedules d) of
        None \<Rightarrow> Inr (d, False, False)
      | Some bot_schedule \<Rightarrow>
     (case find (\<lambda>s. s_id s = bs_schedule_id bot_schedule) (schedules d) of
        None \<Rightarrow> Inr (d, False, False)
      | Some schedule \<Rightarrow>
     (let target_weekday_0based = s_weekday schedule - 1 in
      case next_n_weekly tz now_local target_weekday_0based
             (hour (start_time schedule)) (minute (start_time schedule)) 52 True of
        Inl e \<Rightarrow> Inl e
      | Inr occurrences \<Rightarrow>
     (case materialize_loop tz bot_schedule schedule occurrences (d, 0) of
        Inl e \<Rightarrow> Inl e
      | Inr (d', events_created) \<Rightarrow> Inr (d', events_created > 0, True)))))"

definition ensure_events_for_bot_schedule ::
  "tzinfo \<Rightarrow> datetime \<Rightarrow> db \<Rightarrow> int \<Rightarrow> error + db \<times> bool" where
  \<comment> \<open>the module-level entry: a session of its own, closed on return, so that what
      was not committed is rolled back\<close>
  "ensure_events_for_bot_schedule tz now_local d bot_schedule_id =
     (case ensure_bot_schedule_has_events tz now_local d bot_schedule_id of
        Inl e \<Rightarrow> Inl e
      | Inr (d', committed, result) \<Rightarrow> Inr (if committed then d' else d, result))"

definition reset_lesson_event_to_planned :: "db \<Rightarrow> int \<Rightarrow> db \<times> bool" where
  "reset_lesson_event_to_planned d lesson_event_id =
     (d\<lparr>lesson_events :=
          map (\<lambda>e. if le_id e = lesson_event_id
                    then e\<lparr>le_status := PLANNED, sent_at := None, completed_at := None\<rparr>
                    else e) (lesson_events d)\<rparr>, True)"

section \<open>Notification dispatcher (app/workers/dispatcher.py)\<close>

definition student_rows :: "db \<Rightarrow> int \<Rightarrow> int \<Rightarrow> (int \<times> AttendanceStatus option) list" where
  \<comment> \<open>the query of \<open>build_attendance_message\<close>: students joined with the enrollments
      of the schedule, outer-joined with the attendance of the event, by student id\<close>
  "student_rows d lesson_event_id schedule_id =
     sort_key fst
       (concat (map (\<lambda>st.
          concat (map (\<lambda>se.
            if se_student_id se = st_id st \<and> se_schedule_id se = schedule_id
            then (case filter (\<lambda>a. a_lesson_event_id a = lesson_event_id
                                      \<and> a_student_id a = st_id st) (attendances d) of
                    [] \<Rightarrow> [(st_id st, None)]
                  | as \<Rightarrow> map (\<lambda>a. (st_id st, Some (a_status a))) as)
            else []) (schedule_enrollments d))) (students d)))"

definition build_attendance_message ::
  "db \<Rightarrow> lesson_event \<Rightarrow> (int \<times> AttendanceStatus) list option" where
  \<comment> \<open>the reply markup: one toggle button per row, showing ABSENT only for an explicit
      ABSENT mark (the finish button is implied); \<open>None\<close> when there is no student\<close>
  "build_attendance_message d event =
     (let students = student_rows d (le_id event) (le_schedule_id event)
      in if students = [] then None
         else Some (map (\<lambda>(sid, status).
                      (sid, if status = Some ABSENT then ABSENT else PRESENT)) students))"

text \<open>
  The chat transport is outside the repository: \<open>send_message\<close> is a parameter that
  tells, for a chat id, whether the call returns (\<open>True\<close>) or raises.
\<close>

definition send_attendance_notification ::
  "(int \<Rightarrow> bool) \<Rightarrow> datetime \<Rightarrow> db \<Rightarrow> lesson_event \<Rightarrow> db \<times> int list \<times> bool" where
  \<comment> \<open>\<open>_send_attendance_notification\<close>; \<open>sent_time\<close> is the reading of the clock after
      the send. The answer is the store, the chats a message went to, and whether the
      routine ended in its \<open>except\<close> branch, which logs and rolls the session back.\<close>
  "send_attendance_notification send_message sent_time d event =
     (case teacher_chat_id event of
        None \<Rightarrow> (d, [], False)
      | Some chat_id \<Rightarrow>
          if chat_id = 0 then (d, [], False)
          else (case build_attendance_message d event of
                  Some reply_markup \<Rightarrow>
                    if send_message chat_id
                    then (d\<lparr>lesson_events :=
                              map (\<lambda>e. if le_id e = le_id event
                                        then e\<lparr>sent_at := Some sent_time, le_status := SENT\<rparr>
                                        else e) (lesson_events d)\<rparr>, [chat_id], False)
                    else (d, [], True)
                | None \<Rightarrow>
                    (d\<lparr>lesson_events :=
                         map (\<lambda>e. if le_id e = le_id event
                                   then e\<lparr>le_status := SKIPPED,
                                          last_error := Some ''No students in schedule''\<rparr>
                                   else e) (lesson_events d)\<rparr>, [], False)))"

definition due :: "datetime \<Rightarrow> lesson_event \<Rightarrow> bool" where
  \<comment> \<open>the \<open>where\<close> clause of the dispatcher's selection\<close>
  "due current_time e = (le_status e = PLANNED \<and> notify_at e \<le> current_time \<and> sent_at e = None)"




section \<open>Derived records (payroll_service.py, conducted_lesson_service.py)\<close>

definition count_present_students :: "db \<Rightarrow> int \<Rightarrow> int" where
  "count_present_students d lesson_event_id =
     int (length (filter (\<lambda>a. a_lesson_event_id a = lesson_event_id \<and> a_status a = PRESENT)
                    (attendances d)))"

definition has_existing_payroll :: "db \<Rightarrow> int \<Rightarrow> bool" where
  "has_existing_payroll d lesson_event_id =
     (int (length (filter (\<lambda>p. p_lesson_event_id p = lesson_event_id) (payrolls d))) > 0)"

definition get_active_pay_rate :: "db \<Rightarrow> int \<Rightarrow> date \<Rightarrow> pay_rate option" where
  \<comment> \<open>the rate with the latest \<open>active_from\<close> among those in force on the date; among
      equal \<open>active_from\<close> the first in table order\<close>
  "get_active_pay_rate d teacher_id on_date =
     (case filter (\<lambda>r. pr_teacher_id r = teacher_id \<and> active_from r \<le> on_date
                        \<and> (case active_to r of None \<Rightarrow> True | Some t \<Rightarrow> t \<ge> on_date))
             (pay_rates d) of
        [] \<Rightarrow> None
      | r # rs \<Rightarrow> Some (foldl (\<lambda>best x. if active_from x > active_from best then x else best) r rs))"

definition calculate_lesson_payment :: "db \<Rightarrow> int \<Rightarrow> pay_rate \<Rightarrow> int" where
  "calculate_lesson_payment d lesson_event_id pay_rate =
     (case rate_type pay_rate of
        PER_LESSON \<Rightarrow> pr_amount_decimal pay_rate
      | PER_PRESENT \<Rightarrow> pr_amount_decimal pay_rate * count_present_students d lesson_event_id)"

definition NUMERIC_10_2_LIMIT :: int where
  \<comment> \<open>\<open>Numeric(10, 2)\<close> holds absolute values below \<open>10^8\<close>, that is \<open>10^10\<close> hundredths\<close>
  "NUMERIC_10_2_LIMIT = 10000000000"

definition create_automatic_payroll :: "db \<Rightarrow> int \<Rightarrow> error + db \<times> payroll option" where
  \<comment> \<open>an amount that does not fit the column makes the commit of the new row raise\<close>
  "create_automatic_payroll d lesson_event_id =
     (if has_existing_payroll d lesson_event_id then Inr (d, None)
      else case find (\<lambda>e. le_id e = lesson_event_id) (lesson_events d) of
        None \<Rightarrow> Inr (d, None)
      | Some lesson_event \<Rightarrow>
     (case find (\<lambda>t. t_id t = le_teacher_id lesson_event) (teachers d) of
        None \<Rightarrow> Inr (d, None)
      | Some teacher \<Rightarrow>
     (let present_count = count_present_students d lesson_event_id in
      if present_count = 0 then Inr (d, None)
      else case get_active_pay_rate d (le_teacher_id lesson_event) (le_date lesson_event) of
        None \<Rightarrow> Inr (d, None)
      | Some pay_rate \<Rightarrow>
     (let payment_amount = calculate_lesson_payment d lesson_event_id pay_rate in
      if payment_amount \<le> 0 then Inr (d, None)
      else if payment_amount \<ge> NUMERIC_10_2_LIMIT then Inl DataError
      else let payroll = \<lparr>p_id = payrolls_seq d,
                           p_teacher_id = le_teacher_id lesson_event,
                           p_lesson_event_id = lesson_event_id,
                           basis = AUTO,
                           p_amount_decimal = payment_amount\<rparr>
           in Inr (d\<lparr>payrolls := payrolls d @ [payroll], payrolls_seq := payrolls_seq d + 1\<rparr>,
                   Some payroll)))))"

definition calculate_attendance_stats :: "attendance list \<Rightarrow> int \<times> int \<times> int" where
  \<comment> \<open>\<open>_calculate_attendance_stats\<close>: total, present, absent\<close>
  "calculate_attendance_stats attendance_records =
     (let total_count = int (length attendance_records);
          present = int (length (filter (\<lambda>record. a_status record = PRESENT) attendance_records));
          absent = total_count - present
      in (total_count, present, absent))"

definition create_from_lesson_event :: "db \<Rightarrow> int \<Rightarrow> db \<times> conducted_lesson option" where
  \<comment> \<open>\<open>scalar_one_or_none\<close> raises when several records exist for the event; the
      method catches it and answers \<open>None\<close>\<close>
  "create_from_lesson_event d lesson_event_id =
     (case find (\<lambda>e. le_id e = lesson_event_id) (lesson_events d) of
        None \<Rightarrow> (d, None)
      | Some lesson_event \<Rightarrow>
     (case filter (\<lambda>c. cl_lesson_event_id c = lesson_event_id) (conducted_lessons d) of
        [existing] \<Rightarrow> (d, Some existing)
      | _ # _ # _ \<Rightarrow> (d, None)
      | [] \<Rightarrow>
     (case calculate_attendance_stats
             (filter (\<lambda>a. a_lesson_event_id a = lesson_event_id) (attendances d)) of
        (total_count, present, absent) \<Rightarrow>
          let conducted_lesson = \<lparr>cl_id = conducted_lessons_seq d,
                                   cl_teacher_id = le_teacher_id lesson_event,
                                   cl_club_id = le_club_id lesson_event,
                                   cl_lesson_event_id = lesson_event_id,
                                   lesson_date = start_at lesson_event,
                                   total_students = total_count,
                                   present_students = present,
                                   absent_students = absent,
                                   is_salary_calculated = (present > 0)\<rparr>
          in (d\<lparr>conducted_lessons := conducted_lessons d @ [conducted_lesson],
                 conducted_lessons_seq := conducted_lessons_seq d + 1\<rparr>,
              Some conducted_lesson))))"

section \<open>Finishing attendance (attendance_service.py, dispatcher.py)\<close>

fun insert_default_present :: "int \<Rightarrow> int \<Rightarrow> datetime \<Rightarrow> int list \<Rightarrow> db \<Rightarrow> db" where
  \<comment> \<open>the loop over \<open>missing_student_ids\<close>: insert a PRESENT mark, doing nothing on a
      conflict with the unique key (lesson event, student)\<close>
  "insert_default_present lesson_event_id marked_by_id now [] d = d"
| "insert_default_present lesson_event_id marked_by_id now (student_id # student_ids) d =
     insert_default_present lesson_event_id marked_by_id now student_ids
       (if \<exists>a \<in> set (attendances d). a_lesson_event_id a = lesson_event_id
                                        \<and> a_student_id a = student_id
        then d
        else d\<lparr>attendances := attendances d @
                 [\<lparr>a_id = attendances_seq d,
                   a_lesson_event_id = lesson_event_id,
                   a_student_id = student_id,
                   a_status = PRESENT,
                   marked_by = Some marked_by_id,
                   marked_at = now\<rparr>],
               attendances_seq := attendances_seq d + 1\<rparr>)"

definition enrolled_student_ids :: "db \<Rightarrow> int \<Rightarrow> int list" where
  \<comment> \<open>\<open>select(Student.id).join(ScheduleEnrollment).where(schedule_id == ...)\<close>\<close>
  "enrolled_student_ids d schedule_id =
     concat (map (\<lambda>st. map (\<lambda>se. st_id st)
                          (filter (\<lambda>se. se_student_id se = st_id st
                                         \<and> se_schedule_id se = schedule_id)
                             (schedule_enrollments d))) (students d))"

definition save_attendance :: "db \<Rightarrow> int \<Rightarrow> int \<Rightarrow> datetime \<Rightarrow> error + db" where
  \<comment> \<open>\<open>AttendanceService.save_attendance\<close>. The readings of \<open>datetime.now()\<close> within one
      call are taken as the one reading \<open>now\<close>. The set difference is walked in the order
      of first enrollment; Python fixes no order. Any exception rolls back what the
      call has written and is raised again.\<close>
  "save_attendance d lesson_event_id marked_by_id now =
     (case find (\<lambda>e. le_id e = lesson_event_id) (lesson_events d) of
        None \<Rightarrow> Inl ValueError
      | Some lesson_event \<Rightarrow>
     (let all_student_ids = enrolled_student_ids d (le_schedule_id lesson_event);
          existing_student_ids = map a_student_id
             (filter (\<lambda>a. a_lesson_event_id a = lesson_event_id) (attendances d));
          missing_student_ids = filter (\<lambda>s. s \<notin> set existing_student_ids)
                                  (remdups all_student_ids);
          d1 = insert_default_present lesson_event_id marked_by_id now missing_student_ids d;
          d2 = d1\<lparr>lesson_events :=
                    map (\<lambda>e. if le_id e = lesson_event_id
                              then e\<lparr>le_status := COMPLETED, completed_at := Some now\<rparr>
                              else e) (lesson_events d1)\<rparr>;
          d3 = d2\<lparr>attendances :=
                    map (\<lambda>a. if a_lesson_event_id a = lesson_event_id
                              then a\<lparr>marked_by := Some marked_by_id\<rparr>
                              else a) (attendances d2)\<rparr>
      in case create_automatic_payroll d3 lesson_event_id of
           Inl e \<Rightarrow> Inl e
         | Inr (d4, payroll) \<Rightarrow> Inr d4))"

definition finish_attendance ::
  "db \<Rightarrow> int \<Rightarrow> int \<Rightarrow> datetime \<Rightarrow> db \<times> conducted_lesson option" where
  \<comment> \<open>\<open>_finish_attendance\<close>: an exception of the first step is caught, nothing is saved
      and no record is made\<close>
  "finish_attendance d lesson_event_id chat_id now =
     (case save_attendance d lesson_event_id chat_id now of
        Inl e \<Rightarrow> (d, None)
      | Inr d' \<Rightarrow> create_from_lesson_event d' lesson_event_id)"

section \<open>Cleanup sweeps and schedule reactivation\<close>

definition cleanup_old_planned_events :: "datetime \<Rightarrow> db \<Rightarrow> db" where
  \<comment> \<open>the daily sweep \<open>_cleanup_old_planned_events\<close> (automation_scheduler.py)\<close>
  "cleanup_old_planned_events now d =
     (case datetime_add now (- US_PER_DAY) of
        Inl e \<Rightarrow> d
      | Inr threshold_date \<Rightarrow>
          d\<lparr>lesson_events :=
              map (\<lambda>e. if le_status e = PLANNED \<and> notify_at e < threshold_date
                        then e\<lparr>le_status := SKIPPED,
                               last_error :=
                                 Some ''Automatically skipped - event older than 1 day''\<rparr>
                        else e) (lesson_events d)\<rparr>)"

definition delete_events :: "lesson_event list \<Rightarrow> db \<Rightarrow> db" where
  \<comment> \<open>deleting rows by primary key and committing. \<open>lesson_event_id\<close> is a NOT NULL
      foreign key of attendance, conducted_lessons and payroll: a row of one of them
      that refers to an event to delete makes the flush fail, and the sweep rolls back.\<close>
  "delete_events old_events d =
     (if (\<exists>a \<in> set (attendances d). a_lesson_event_id a \<in> le_id ` set old_events)
         \<or> (\<exists>c \<in> set (conducted_lessons d). cl_lesson_event_id c \<in> le_id ` set old_events)
         \<or> (\<exists>p \<in> set (payrolls d). p_lesson_event_id p \<in> le_id ` set old_events)
      then d
      else d\<lparr>lesson_events :=
               filter (\<lambda>e. le_id e \<notin> le_id ` set old_events) (lesson_events d)\<rparr>)"

definition cleanup_past_lesson_events :: "date \<Rightarrow> db \<Rightarrow> db" where
  "cleanup_past_lesson_events today d =
     delete_events
       (filter (\<lambda>e. le_status e = PLANNED \<and> le_date e < today
                     \<and> (\<forall>a \<in> set (attendances d). a_lesson_event_id a \<noteq> le_id e)
                     \<and> (\<forall>c \<in> set (conducted_lessons d). cl_lesson_event_id c \<noteq> le_id e))
          (lesson_events d)) d"

definition outdated :: "tzinfo \<Rightarrow> schedule \<Rightarrow> lesson_event \<Rightarrow> error + bool" where
  \<comment> \<open>the stored start differs from the recomputed one by more than a minute\<close>
  "outdated tz schedule event =
     (case combine_date_time_to_utc tz (le_date event) (start_time schedule) of
        Inl e \<Rightarrow> Inl e
      | Inr expected_start_at \<Rightarrow> Inr (\<bar>start_at event - expected_start_at\<bar> > 60 * 1000000))"

definition cleanup_outdated_future_events :: "tzinfo \<Rightarrow> date \<Rightarrow> db \<Rightarrow> db" where
  \<comment> \<open>for every active schedule, its future PLANNED events without attendance; an
      exception anywhere rolls the whole sweep back\<close>
  "cleanup_outdated_future_events tz today d =
     (case collect (\<lambda>(schedule, event).
                      case outdated tz schedule event of
                        Inl e \<Rightarrow> Inl e
                      | Inr b \<Rightarrow> Inr (if b then [event] else []))
             (concat (map (\<lambda>schedule.
                map (\<lambda>event. (schedule, event))
                  (filter (\<lambda>e. le_schedule_id e = s_id schedule \<and> le_status e = PLANNED
                                \<and> le_date e \<ge> today
                                \<and> (\<forall>a \<in> set (attendances d). a_lesson_event_id a \<noteq> le_id e))
                     (lesson_events d)))
                (filter active (schedules d)))) of
        Inl e \<Rightarrow> d
      | Inr dels \<Rightarrow> delete_events (concat dels) d)"

definition reactivate_schedule :: "date \<Rightarrow> db \<Rightarrow> int \<Rightarrow> db option" where
  \<comment> \<open>app/api/schedules.py; \<open>None\<close> is the 404 answer for an unknown schedule\<close>
  "reactivate_schedule today d schedule_id =
     (case find (\<lambda>s. s_id s = schedule_id) (schedules d) of
        None \<Rightarrow> None
      | Some schedule \<Rightarrow>
          if active schedule then Some d
          else Some (d\<lparr>schedules :=
                         map (\<lambda>s. if s_id s = schedule_id then s\<lparr>active := True\<rparr> else s)
                           (schedules d),
                       lesson_events :=
                         map (\<lambda>e. if le_schedule_id e = schedule_id \<and> le_date e \<ge> today
                                      \<and> le_status e = CANCELLED
                                   then e\<lparr>le_status := PLANNED\<rparr> else e)
                           (lesson_events d)\<rparr>))"

section \<open>Well-formedness and postconditions used by the theorems\<close>


definition tz_ok :: "tzinfo \<Rightarrow> bool" where
  \<comment> \<open>a UTC offset is strictly between -24 and 24 hours, as Python demands of any
      \<open>tzinfo\<close>\<close>
  "tz_ok tz = (\<forall>u. \<bar>utcoffset tz u\<bar> < US_PER_DAY \<and> \<bar>utcoffset_at tz u\<bar> < US_PER_DAY)"


definition days_ahead_of :: "datetime \<Rightarrow> int \<Rightarrow> int \<Rightarrow> int \<Rightarrow> bool \<Rightarrow> int" where
  \<comment> \<open>the final \<open>days_ahead\<close> of the generator, read off the clock\<close>
  "days_ahead_of now_local wd h m inc =
     (if (wd - weekday (date_of now_local)) mod 7 = 0
      then (if inc \<and> time_of now_local < h * US_PER_HOUR + m * US_PER_MINUTE then 0 else 7)
      else (wd - weekday (date_of now_local)) mod 7)"


definition refresh ::
  "datetime \<Rightarrow> datetime \<Rightarrow> int option \<Rightarrow> int \<Rightarrow> lesson_event \<Rightarrow> lesson_event" where
  \<comment> \<open>what the materializer's \<open>update ... where id = i\<close> does to one row\<close>
  "refresh s n c i e =
     (if le_id e = i
      then e\<lparr>start_at := s, notify_at := n, teacher_chat_id := c, le_status := PLANNED,
             sent_at := None, completed_at := None, send_attempts := 0, last_error := None\<rparr>
      else e)"


definition local_date :: "tzinfo \<Rightarrow> datetime \<Rightarrow> date" where
  \<comment> \<open>the local calendar date of a UTC instant\<close>
  "local_date tz u = date_of (u + utcoffset_at tz u)"

section \<open>Concrete stores for evaluation\<close>

text \<open>
  One teacher with a chat id, one schedule on Mondays at 14:00, its notification
  configuration with an offset of ten minutes, and no lesson event yet.
\<close>

definition teacher0 :: teacher where
  "teacher0 = \<lparr>t_id = 1, tg_chat_id = Some 555\<rparr>"

definition sch0 :: schedule where
  "sch0 = \<lparr>s_id = 1, s_club_id = Some 1, s_weekday = 1,
           start_time = \<lparr>hour = 14, minute = 0, second = 0, microsecond = 0\<rparr>,
           s_teacher_id = 1, active = True\<rparr>"

definition bs0 :: bot_schedule where
  "bs0 = \<lparr>bs_id = 1, bs_schedule_id = 1, enabled = True, offset_minutes = 10,
          custom_time = None\<rparr>"

definition d0 :: db where
  "d0 = \<lparr>teachers = [teacher0], schedules = [sch0], bot_schedules = [bs0],
         lesson_events = [], lesson_events_seq = 1,
         students = [], schedule_enrollments = [], attendances = [], attendances_seq = 1,
         conducted_lessons = [], conducted_lessons_seq = 1, pay_rates = [], payrolls = [],
         payrolls_seq = 1\<rparr>"



text \<open>
  A class of two enrolled students with one due event: the teacher has a chat id, the
  notification was due at 11:50 UTC on 23 March 2026, nothing was sent yet.
\<close>

definition ev1 :: lesson_event where
  "ev1 = \<lparr>le_id = 1, le_schedule_id = 1, le_date = 739698, le_club_id = Some 1,
          le_teacher_id = 1, le_status = PLANNED, start_at = dt 739698 12 0,
          notify_at = dt 739698 11 50, sent_at = None, completed_at = None,
          teacher_chat_id = Some 555, send_attempts = 0, last_error = None,
          idempotency_key = Some ''bot_schedule_1_20260323''\<rparr>"

definition d_class :: db where
  "d_class = d0\<lparr>lesson_events := [ev1], lesson_events_seq := 2,
                 students := [\<lparr>st_id = 1\<rparr>, \<lparr>st_id = 2\<rparr>],
                 schedule_enrollments :=
                   [\<lparr>se_id = 1, se_student_id = 1, se_schedule_id = 1\<rparr>,
                    \<lparr>se_id = 2, se_student_id = 2, se_schedule_id = 1\<rparr>]\<rparr>"

definition send_fails :: "int \<Rightarrow> bool" where
  \<comment> \<open>a transport whose every call raises\<close>
  "send_fails chat_id = False"


section \<open>The recurrence generator: first occurrence\<close>

lemmas time_consts = US_PER_DAY_def US_PER_HOUR_def US_PER_MINUTE_def MAXORDINAL_def

lemma collect_add_all:
  "\<forall>i \<in> set is. in_range (a + k i)
   \<Longrightarrow> collect (\<lambda>i. datetime_add a (k i)) is = Inr (map (\<lambda>i. a + k i) is)"
  by (induction "is") (simp_all add: datetime_add_def)

lemma day_bounds:
  "date_of x * US_PER_DAY \<le> x \<and> x < date_of x * US_PER_DAY + US_PER_DAY"
proof -
  have "x = date_of x * US_PER_DAY + x mod US_PER_DAY" by (simp add: date_of_def)
  moreover have "0 \<le> x mod US_PER_DAY \<and> x mod US_PER_DAY < US_PER_DAY"
    by (simp add: US_PER_DAY_def)
  ultimately show ?thesis by linarith
qed

text \<open>
  The generator returns, and what it returns: for a valid hour and minute, a zone with
  offsets below a day and a clock far enough from the ends of Python's range, the
  result is the UTC image \<open>u\<close> of the first local occurrence, followed by \<open>u\<close> plus
  whole weeks.
\<close>

lemma next_n_weekly_eq:
  assumes hm: "0 \<le> h" "h < 24" "0 \<le> m" "m < 60"
    and tz: "tz_ok tz"
    and now: "3 * US_PER_DAY \<le> now_local"
      "now_local + (7 * n + 10) * US_PER_DAY \<le> MAXORDINAL * US_PER_DAY"
    and n: "0 \<le> n"
  shows "\<exists>u. astimezone_utc tz
                (dt (date_of now_local + days_ahead_of now_local wd h m inc) h m) = Inr u
             \<and> next_n_weekly tz now_local wd h m n inc
                 = Inr (map (\<lambda>i. u + 7 * i * US_PER_DAY) (py_range n))
             \<and> now_local - 2 * US_PER_DAY \<le> u \<and> u \<le> now_local + 9 * US_PER_DAY"
proof -
  define first where "first = date_of now_local * US_PER_DAY + h * US_PER_HOUR + m * US_PER_MINUTE"
  define k where "k = (if (wd - weekday (date_of first)) mod 7 = 0
                       then (if inc \<and> first > now_local then 0 else 7)
                       else (wd - weekday (date_of first)) mod 7)"
  define fl where "fl = first + k * US_PER_DAY"
  define u where "u = fl + - utcoffset tz fl"
  have r: "replace_hm now_local h m = Inr first"
    using hm by (simp add: replace_hm_def first_def)
  have hmb: "0 \<le> h * US_PER_HOUR + m * US_PER_MINUTE"
    "h * US_PER_HOUR + m * US_PER_MINUTE < US_PER_DAY"
    using hm by (simp_all add: time_consts)
  have df: "date_of first = date_of now_local"
    using hm by (simp add: first_def date_of_def time_consts)
  from day_bounds[of now_local]
  have cmp: "(first > now_local)
             = (time_of now_local < h * US_PER_HOUR + m * US_PER_MINUTE)"
    unfolding first_def time_of_def date_of_def
    by (metis add.assoc add_less_cancel_left mult.commute mult_div_mod_eq)
  have kk: "k = days_ahead_of now_local wd h m inc"
    unfolding k_def days_ahead_of_def df cmp ..
  from day_bounds[of now_local] hmb
  have fb: "now_local - US_PER_DAY \<le> first" "first \<le> now_local + US_PER_DAY"
    unfolding first_def by linarith+
  have kb: "0 \<le> k \<and> k \<le> 7"
    unfolding k_def by (simp add: pos_mod_sign pos_mod_bound less_imp_le)
  have kD: "0 \<le> k * US_PER_DAY" "k * US_PER_DAY \<le> 7 * US_PER_DAY"
    using kb by (simp_all add: US_PER_DAY_def)
  have flb: "now_local - US_PER_DAY \<le> fl" "fl \<le> now_local + 8 * US_PER_DAY"
    unfolding fl_def using fb kD by linarith+
  have nD: "0 \<le> n * US_PER_DAY" using n by (simp add: US_PER_DAY_def)
  have top: "now_local + 10 * US_PER_DAY + 7 * (n * US_PER_DAY) \<le> MAXORDINAL * US_PER_DAY"
    using now(2) by (simp add: algebra_simps)
  have a1: "datetime_add first (k * US_PER_DAY) = Inr fl"
    using flb now(1) top nD
    by (simp add: datetime_add_def in_range_def fl_def[symmetric]) (simp add: time_consts)
  from tz have o: "\<bar>utcoffset tz fl\<bar> < US_PER_DAY" by (simp add: tz_ok_def)
  with flb have ub: "now_local - 2 * US_PER_DAY \<le> u" "u \<le> now_local + 9 * US_PER_DAY"
    unfolding u_def by linarith+
  have ir: "in_range u"
    using ub now(1) top nD unfolding in_range_def by (simp add: time_consts)
  have a2: "astimezone_utc tz fl = Inr u"
    unfolding astimezone_utc_def datetime_add_def u_def[symmetric] using ir by simp
  have sb: "in_range (u + 7 * i * US_PER_DAY)" if "i \<in> set (py_range n)" for i
  proof -
    from that have "0 \<le> i" "i + 1 \<le> n" by (auto simp: py_range_def)
    then have "0 \<le> 7 * i * US_PER_DAY" "7 * i * US_PER_DAY + 7 * US_PER_DAY \<le> 7 * (n * US_PER_DAY)"
      by (simp_all add: US_PER_DAY_def)
    with ub now(1) top show ?thesis
      unfolding in_range_def by (simp add: time_consts)
  qed
  then have a3: "collect (\<lambda>i. datetime_add u (7 * i * US_PER_DAY)) (py_range n)
                 = Inr (map (\<lambda>i. u + 7 * i * US_PER_DAY) (py_range n))"
    by (intro collect_add_all) simp
  have res: "next_n_weekly tz now_local wd h m n inc
        = Inr (map (\<lambda>i. u + 7 * i * US_PER_DAY) (py_range n))"
    by (simp only: next_n_weekly_def r Let_def sum.case k_def[symmetric] a1 a2 a3)
  have "fl = dt (date_of now_local + days_ahead_of now_local wd h m inc) h m"
    unfolding fl_def first_def kk dt_def by (simp add: algebra_simps)
  with a2 res ub show ?thesis by blast
qed

lemma py_range_pos:
  assumes "0 < n"
  shows "py_range n = 0 # map (\<lambda>i. i + 1) (py_range (n - 1))"
proof -
  from assms obtain k where k: "nat n = Suc k" by (cases "nat n") auto
  then have k': "nat (n - 1) = k" by simp
  have "[0..<Suc k] = 0 # map Suc [0..<k]"
    by (simp add: upt_conv_Cons map_Suc_upt del: upt_Suc)
  then show ?thesis
    unfolding py_range_def k k' by (simp add: comp_def)
qed

text \<open>
  Claim C4. With \<open>include_today\<close> set and the target weekday equal to today's local
  weekday, the generator returns a non-empty list of \<open>n\<close> instants whose first one is
  the UTC image of today's date at the target time when that time is strictly after
  the current local time, and of the date seven days later at the target time when it
  is at or before the current time; where the zone maps that instant back with the
  same offset, its local date is today, respectively today plus seven. This holds at
  every clock reading from which the \<open>n\<close> weeks stay inside Python's date range.
\<close>

theorem next_n_weekly_include_today:
  assumes "0 \<le> local_hour" "local_hour < 24" "0 \<le> local_minute" "local_minute < 60"
    and "tz_ok tz"
    and "3 * US_PER_DAY \<le> now_local"
    and "now_local + (7 * n + 10) * US_PER_DAY \<le> MAXORDINAL * US_PER_DAY"
    and "0 < n"
    and "local_weekday = weekday (date_of now_local)"
  shows "\<exists>xs first_date.
           next_n_weekly tz now_local local_weekday local_hour local_minute n True = Inr xs
           \<and> xs \<noteq> [] \<and> length xs = nat n
           \<and> first_date =
                (if time_of now_local < local_hour * US_PER_HOUR + local_minute * US_PER_MINUTE
                 then date_of now_local else date_of now_local + 7)
           \<and> astimezone_utc tz (dt first_date local_hour local_minute) = Inr (hd xs)
           \<and> (utcoffset_at tz (hd xs) = utcoffset tz (dt first_date local_hour local_minute)
                \<longrightarrow> local_date tz (hd xs) = first_date)"
proof -
  let ?fd = "if time_of now_local < local_hour * US_PER_HOUR + local_minute * US_PER_MINUTE
             then date_of now_local else date_of now_local + 7"
  from assms(8) have n0: "0 \<le> n" by simp
  from assms(9) have k: "date_of now_local
      + days_ahead_of now_local local_weekday local_hour local_minute True = ?fd"
    by (simp add: days_ahead_of_def)
  from next_n_weekly_eq[OF assms(1-7) n0, of local_weekday True]
  obtain u where
    u: "astimezone_utc tz (dt ?fd local_hour local_minute) = Inr u"
    and xs: "next_n_weekly tz now_local local_weekday local_hour local_minute n True
             = Inr (map (\<lambda>i. u + 7 * i * US_PER_DAY) (py_range n))"
    unfolding k by blast
  let ?xs = "map (\<lambda>i. u + 7 * i * US_PER_DAY) (py_range n)"
  have hd: "?xs \<noteq> []" "hd ?xs = u"
    unfolding py_range_pos[OF assms(8)] by simp_all
  have len: "length ?xs = nat n" by (simp add: py_range_def)
  have roundtrip: "local_date tz u = ?fd"
    if "utcoffset_at tz u = utcoffset tz (dt ?fd local_hour local_minute)"
  proof -
    from u have "u = dt ?fd local_hour local_minute
                     - utcoffset tz (dt ?fd local_hour local_minute)"
      by (auto simp: astimezone_utc_def datetime_add_def split: if_splits)
    with that have "u + utcoffset_at tz u = dt ?fd local_hour local_minute" by simp
    moreover have "date_of (dt ?fd local_hour local_minute) = ?fd"
      using assms(1-4) by (simp add: dt_def date_of_def time_consts)
    ultimately show ?thesis by (simp add: local_date_def)
  qed
  show ?thesis
    by (intro exI[of _ ?xs] exI[of _ ?fd]) (use xs u hd len roundtrip in simp)
qed

lemmas time_defs = next_n_weekly_def replace_hm_def kyiv_2026_def dt_def date_of_def time_of_def
  weekday_def datetime_add_def astimezone_utc_def astimezone_kyiv_def in_range_def py_range_def

lemma tz_ok_kyiv_2026: "tz_ok kyiv_2026"
  by (simp add: tz_ok_def kyiv_2026_def time_consts)

theorem next_n_weekly_include_today_witness:
  "(\<exists>xs. next_n_weekly kyiv_2026 (dt 739698 10 0) 0 14 0 2 True = Inr xs
         \<and> length xs = 2 \<and> hd xs = dt 739698 12 0
         \<and> local_date kyiv_2026 (hd xs) = date_of (dt 739698 10 0))
   \<and> (\<exists>xs. next_n_weekly kyiv_2026 (dt 739698 14 0) 0 14 0 2 True = Inr xs
         \<and> length xs = 2 \<and> hd xs = dt 739705 11 0
         \<and> local_date kyiv_2026 (hd xs) = date_of (dt 739698 14 0) + 7)"
proof -
  have c: "(0::int) \<le> 14" "(14::int) < 24" "(0::int) \<le> 0" "(0::int) < 60" "(0::int) < 2"
    by simp_all
  have r1: "3 * US_PER_DAY \<le> dt 739698 10 0"
    "dt 739698 10 0 + (7 * 2 + 10) * US_PER_DAY \<le> MAXORDINAL * US_PER_DAY"
    "0 = weekday (date_of (dt 739698 10 0))"
    by (simp_all add: dt_def date_of_def weekday_def time_consts)
  have r2: "3 * US_PER_DAY \<le> dt 739698 14 0"
    "dt 739698 14 0 + (7 * 2 + 10) * US_PER_DAY \<le> MAXORDINAL * US_PER_DAY"
    "0 = weekday (date_of (dt 739698 14 0))"
    by (simp_all add: dt_def date_of_def weekday_def time_consts)
  have t1: "time_of (dt 739698 10 0) < 14 * US_PER_HOUR + 0 * US_PER_MINUTE"
    "date_of (dt 739698 10 0) = 739698"
    by (simp_all add: dt_def date_of_def time_of_def time_consts)
  have t2: "\<not> time_of (dt 739698 14 0) < 14 * US_PER_HOUR + 0 * US_PER_MINUTE"
    "date_of (dt 739698 14 0) = 739698"
    by (simp_all add: dt_def date_of_def time_of_def time_consts)
  have z1: "astimezone_utc kyiv_2026 (dt 739698 14 0) = Inr (dt 739698 12 0)"
    "utcoffset_at kyiv_2026 (dt 739698 12 0) = utcoffset kyiv_2026 (dt 739698 14 0)"
    by (simp_all add: time_defs time_consts)
  have z2: "astimezone_utc kyiv_2026 (dt (739698 + 7) 14 0) = Inr (dt 739705 11 0)"
    "utcoffset_at kyiv_2026 (dt 739705 11 0) = utcoffset kyiv_2026 (dt (739698 + 7) 14 0)"
    by (simp_all add: time_defs time_consts)
  from next_n_weekly_include_today[OF c(1-4) tz_ok_kyiv_2026 r1(1,2) c(5) r1(3)]
  obtain xs fd where x: "next_n_weekly kyiv_2026 (dt 739698 10 0) 0 14 0 2 True = Inr xs"
    "length xs = nat 2"
    "fd = (if time_of (dt 739698 10 0) < 14 * US_PER_HOUR + 0 * US_PER_MINUTE
           then date_of (dt 739698 10 0) else date_of (dt 739698 10 0) + 7)"
    "astimezone_utc kyiv_2026 (dt fd 14 0) = Inr (hd xs)"
    "utcoffset_at kyiv_2026 (hd xs) = utcoffset kyiv_2026 (dt fd 14 0)
     \<longrightarrow> local_date kyiv_2026 (hd xs) = fd"
    by (elim exE conjE)
  from x(3) t1 have fd: "fd = 739698" by simp
  from x(4) z1(1) have h1: "hd xs = dt 739698 12 0" unfolding fd by simp
  with x(5) z1(2) have "local_date kyiv_2026 (hd xs) = 739698" unfolding fd by simp
  with x(1,2) h1 t1(2)
  have "\<exists>xs. next_n_weekly kyiv_2026 (dt 739698 10 0) 0 14 0 2 True = Inr xs
         \<and> length xs = 2 \<and> hd xs = dt 739698 12 0
         \<and> local_date kyiv_2026 (hd xs) = date_of (dt 739698 10 0)"
    by (intro exI[of _ xs]) simp
  moreover
  from next_n_weekly_include_today[OF c(1-4) tz_ok_kyiv_2026 r2(1,2) c(5) r2(3)]
  obtain ys fe where y: "next_n_weekly kyiv_2026 (dt 739698 14 0) 0 14 0 2 True = Inr ys"
    "length ys = nat 2"
    "fe = (if time_of (dt 739698 14 0) < 14 * US_PER_HOUR + 0 * US_PER_MINUTE
           then date_of (dt 739698 14 0) else date_of (dt 739698 14 0) + 7)"
    "astimezone_utc kyiv_2026 (dt fe 14 0) = Inr (hd ys)"
    "utcoffset_at kyiv_2026 (hd ys) = utcoffset kyiv_2026 (dt fe 14 0)
     \<longrightarrow> local_date kyiv_2026 (hd ys) = fe"
    by (elim exE conjE)
  from y(3) t2 have fe: "fe = 739698 + 7" by simp
  from y(4) z2(1) have h2: "hd ys = dt 739705 11 0" unfolding fe by simp
  with y(5) z2(2) have "local_date kyiv_2026 (hd ys) = 739698 + 7" unfolding fe by simp
  with y(1,2) h2 t2(2)
  have "\<exists>xs. next_n_weekly kyiv_2026 (dt 739698 14 0) 0 14 0 2 True = Inr xs
         \<and> length xs = 2 \<and> hd xs = dt 739705 11 0
         \<and> local_date kyiv_2026 (hd xs) = date_of (dt 739698 14 0) + 7"
    by (intro exI[of _ ys]) simp
  ultimately show ?thesis ..
qed

section \<open>Pattern matching of idempotency keys\<close>







section \<open>The event materializer is idempotent\<close>





lemma occurrence_row_refresh [simp]:
  "occurrence_row b sch dte (refresh s n c i e) = occurrence_row b sch dte e"
  by (simp add: occurrence_row_def refresh_def key_matches_def)

lemma le_id_refresh [simp]: "le_id (refresh s n c i e) = le_id e"
  by (simp add: refresh_def)

























section \<open>How many rows a run creates\<close>

lemma le_date_refresh [simp]: "le_date (refresh s n c i e) = le_date e"
  by (simp add: refresh_def)





section \<open>Two runs on one day, before and after the lesson\<close>














section \<open>The dispatcher: missing contact and failed sends\<close>












text \<open>
  Claim C8, as the code has it. When sending the notification fails, the send routine
  logs the error, rolls the session back and leaves the store as it was: the
  occurrence stays PLANNED with \<open>sent_at\<close> unset, so that it meets the selection
  condition again at every later time and is retried; its \<open>send_attempts\<close> and
  \<open>last_error\<close> are left as they were (no path of the repository increments the
  counter or records the error of a failed send).
\<close>

theorem send_failure_leaves_store:
  assumes "teacher_chat_id event = Some chat_id" and "chat_id \<noteq> 0"
    and "build_attendance_message d event \<noteq> None"
    and "\<not> send_message chat_id"
  shows "send_attendance_notification send_message sent_time d event = (d, [], True)
         \<and> (due current_time event \<and> current_time \<le> later \<longrightarrow> due later event)"
  using assms by (auto simp: send_attendance_notification_def due_def)

lemma build_attendance_message_d_class:
  "build_attendance_message d_class ev1 = Some [(1, PRESENT), (2, PRESENT)]"
  by (simp add: build_attendance_message_def student_rows_def d_class_def d0_def ev1_def)

theorem send_failure_leaves_store_witness:
  "teacher_chat_id ev1 = Some 555 \<and> \<not> send_fails 555
   \<and> build_attendance_message d_class ev1 = Some [(1, PRESENT), (2, PRESENT)]
   \<and> send_attendance_notification send_fails (dt 739698 12 0) d_class ev1
       = (d_class, [], True)
   \<and> due (dt 739698 12 0) ev1 \<and> due (dt 739698 12 30) ev1"
proof -
  have h: "teacher_chat_id ev1 = Some 555" "(555::int) \<noteq> 0"
    "build_attendance_message d_class ev1 \<noteq> None" "\<not> send_fails 555"
    by (simp add: ev1_def, simp, simp add: build_attendance_message_d_class,
        simp add: send_fails_def)
  have d: "due (dt 739698 12 0) ev1" "dt 739698 12 0 \<le> dt 739698 12 30"
    by (simp_all add: due_def ev1_def dt_def time_consts)
  have "send_attendance_notification send_fails (dt 739698 12 0) d_class ev1
          = (d_class, [], True)
        \<and> (due (dt 739698 12 0) ev1 \<and> dt 739698 12 0 \<le> dt 739698 12 30
             \<longrightarrow> due (dt 739698 12 30) ev1)"
    using h by (rule send_failure_leaves_store)
  with d have "send_attendance_notification send_fails (dt 739698 12 0) d_class ev1
                 = (d_class, [], True)"
    and "due (dt 739698 12 30) ev1" by blast+
  with h(1,4) d(1) build_attendance_message_d_class show ?thesis by blast
qed

theorem send_failure_counterexample:
  "due (dt 739698 12 0) ev1 \<and> lesson_events d_class = [ev1]
   \<and> teacher_chat_id ev1 = Some 555 \<and> \<not> send_fails 555
   \<and> send_attempts ev1 = 0 \<and> last_error ev1 = None
   \<and> lesson_events (fst (send_attendance_notification send_fails (dt 739698 12 0) d_class ev1))
       = [ev1]
   \<and> \<not> (send_attempts (hd (lesson_events
            (fst (send_attendance_notification send_fails (dt 739698 12 0) d_class ev1))))
          = send_attempts ev1 + 1)
   \<and> last_error (hd (lesson_events
            (fst (send_attendance_notification send_fails (dt 739698 12 0) d_class ev1)))) = None"
proof -
  have c: "teacher_chat_id ev1 = Some 555" by (simp add: ev1_def)
  have s: "send_attendance_notification send_fails (dt 739698 12 0) d_class ev1
           = (d_class, [], True)"
    by (simp add: send_attendance_notification_def build_attendance_message_d_class
        send_fails_def c)
  have l: "lesson_events d_class = [ev1]" by (simp add: d_class_def)
  have d: "due (dt 739698 12 0) ev1" by (simp add: due_def ev1_def dt_def time_consts)
  show ?thesis unfolding s using l d by (simp add: ev1_def send_fails_def)
qed
end
